theory Spec2Isabelle
  imports Main "HOL-Library.Word" "HOL-Library.Finite_Map"
begin

unbundle bit_operations_syntax

section \<open>The job picker \<^verbatim>\<open>worker/run_with_job_id.py\<close>\<close>

text \<open>
  The script is a straight line with one branch:
  \<^verbatim>\<open>
   7  mongo_uri = os.environ.get("MONGO_URI", "mongodb://localhost:27017")
   8  client = MongoClient(mongo_uri)
   9  db = client["filesure"]
  10  jobs = db["jobs"]
  13  job = jobs.find_one({"jobStatus": "pending"})
  15  if not job:
  16      print("No pending job found.")
  17      sys.exit(0)
  19  job_id = str(job["_id"])
  20  print(f"Running job: {job_id}")
  23  subprocess.run(["python", "downloader.py", job_id])
  \<close>
  Everything it touches is outside the process: the environment, the document store
  and the operating system that runs the child. These are the inputs of the model
  (the record \<open>world\<close>); what the script does to them is the output (the record
  \<open>run\<close>: the calls it made in order, how it ended, and the stores afterwards).
\<close>

subsection \<open>Values and documents\<close>

text \<open>
  The values a field of a record holds: the store's own identifiers (twelve bytes),
  strings, integers, booleans, null, and arrays of such values. A string is a list of
  characters with code points below 256. Doubles, dates and embedded documents are
  left out.
\<close>

datatype bson =
    ObjectId "96 word"
  | BStr string
  | BInt int
  | BBool bool
  | BNull
  | BArr "bson list"

text \<open>A decoded document is a Python \<^verbatim>\<open>dict\<close>: a finite map from keys to values.\<close>

type_synonym document = "(string, bson) fmap"

text \<open>
  A stored record always carries the field \<^verbatim>\<open>_id\<close> (the store assigns one on
  insertion); its other fields are free.
\<close>

record job_record =
  doc_id :: bson
  other_fields :: document

definition to_dict :: "job_record \<Rightarrow> document" where
  "to_dict r = fmupd ''_id'' (doc_id r) (other_fields r)"

subsection \<open>\<^verbatim>\<open>str\<close> of a value\<close>

text \<open>The digit for the lowest hexadecimal (decimal) place of a number.\<close>

definition hex_digit :: "nat \<Rightarrow> char" where
  "hex_digit n = ''0123456789abcdef'' ! (n mod 16)"

definition dec_digit :: "nat \<Rightarrow> char" where
  "dec_digit n = ''0123456789'' ! (n mod 10)"

text \<open>\<^verbatim>\<open>str(ObjectId)\<close>: the twelve bytes as 24 lower-case hexadecimal digits.\<close>

definition hex_of_oid :: "96 word \<Rightarrow> string" where
  "hex_of_oid w = map (\<lambda>i. hex_digit (unat (drop_bit (4 * (23 - i)) w))) [0..<24]"

text \<open>\<^verbatim>\<open>str\<close> of an integer: decimal, no leading zero, a minus sign when negative.\<close>

function str_nat :: "nat \<Rightarrow> string" where
  "str_nat n = (if n < 10 then [dec_digit n] else str_nat (n div 10) @ [dec_digit n])"
  by pat_completeness auto
termination
  by (relation "measure id") auto

definition str_int :: "int \<Rightarrow> string" where
  "str_int i = (if i < 0 then CHR ''-'' # str_nat (nat (- i)) else str_nat (nat i))"

text \<open>
  \<^verbatim>\<open>repr\<close> of a string: in single quotes, or in double quotes when it holds a single
  quote and no double quote; the backslash and the chosen quote are escaped, tab,
  newline and carriage return are written \<^verbatim>\<open>\t\<close>, \<^verbatim>\<open>\n\<close>, \<^verbatim>\<open>\r\<close>, and every other
  character that is not printable (below 32, 127 to 160, 173) is written \<^verbatim>\<open>\xNN\<close>.
\<close>

definition printable :: "char \<Rightarrow> bool" where
  "printable c =
     (let n = of_char c :: nat
      in (32 \<le> n \<and> n < 127) \<or> (161 \<le> n \<and> n \<noteq> 173))"

definition repr_char :: "char \<Rightarrow> char \<Rightarrow> string" where
  "repr_char q c =
     (if c = CHR 0x5C \<or> c = q then [CHR 0x5C, c]
      else if c = CHR 0x09 then [CHR 0x5C, CHR ''t'']
      else if c = CHR 0x0A then [CHR 0x5C, CHR ''n'']
      else if c = CHR 0x0D then [CHR 0x5C, CHR ''r'']
      else if printable c then [c]
      else [CHR 0x5C, CHR ''x'', hex_digit (of_char c div 16), hex_digit (of_char c)])"

definition repr_str :: "string \<Rightarrow> string" where
  "repr_str s =
     (let q = (if CHR 0x27 \<in> set s \<and> CHR 0x22 \<notin> set s then CHR 0x22 else CHR 0x27)
      in q # concat (map (repr_char q) s) @ [q])"

text \<open>\<^verbatim>\<open>", ".join(parts)\<close>.\<close>

fun join_comma :: "string list \<Rightarrow> string" where
  "join_comma [] = []"
| "join_comma [x] = x"
| "join_comma (x # y # ys) = x @ '', '' @ join_comma (y # ys)"

text \<open>\<^verbatim>\<open>repr\<close> of a value; a list shows the \<^verbatim>\<open>repr\<close> of its elements.\<close>

fun py_repr :: "bson \<Rightarrow> string" where
  "py_repr (ObjectId w) = ''ObjectId('' @ [CHR 0x27] @ hex_of_oid w @ [CHR 0x27] @ '')''"
| "py_repr (BStr s) = repr_str s"
| "py_repr (BInt i) = str_int i"
| "py_repr (BBool b) = (if b then ''True'' else ''False'')"
| "py_repr BNull = ''None''"
| "py_repr (BArr xs) = ''['' @ join_comma (map py_repr xs) @ '']''"

text \<open>
  \<^verbatim>\<open>str\<close> of a value: a string is itself, an identifier is its hexadecimal digits,
  everything else is its \<^verbatim>\<open>repr\<close>.
\<close>

fun py_str :: "bson \<Rightarrow> string" where
  "py_str (ObjectId w) = hex_of_oid w"
| "py_str (BStr s) = s"
| "py_str v = py_repr v"

text \<open>The one field of a record the script's query looks at.\<close>

definition jobStatus :: "job_record \<Rightarrow> bson option" where
  "jobStatus r = fmlookup (to_dict r) ''jobStatus''"

definition pending :: "job_record \<Rightarrow> bool" where
  "pending r = (jobStatus r = Some (BStr ''pending''))"

text \<open>A record whose \<^verbatim>\<open>jobStatus\<close> is an array with \<^verbatim>\<open>"pending"\<close> among its elements.\<close>

definition array_pending :: "job_record \<Rightarrow> bool" where
  "array_pending r =
     (case jobStatus r of Some (BArr xs) \<Rightarrow> BStr ''pending'' \<in> set xs | _ \<Rightarrow> False)"

text \<open>The two kinds of record together: those the query of line 13 selects.\<close>

definition selectable :: "job_record \<Rightarrow> bool" where
  "selectable r = (pending r \<or> array_pending r)"

subsection \<open>The store\<close>

text \<open>
  A store holds, per database name and collection name, its records in storage
  order; a collection that was never written is empty.
\<close>

type_synonym store = "string \<Rightarrow> string \<Rightarrow> job_record list"

type_synonym query_filter = "(string \<times> bson) list"

text \<open>
  An equality filter \<^verbatim>\<open>{k: v}\<close> selects the documents whose field \<open>k\<close> is \<open>v\<close>, or
  is an array with \<open>v\<close> among its elements; with \<open>v\<close> null it also selects those
  without the field.
\<close>

fun value_matches :: "bson \<Rightarrow> bson \<Rightarrow> bool" where
  "value_matches (BArr xs) v = (BArr xs = v \<or> v \<in> set xs)"
| "value_matches u v = (u = v)"

definition field_matches :: "document \<Rightarrow> string \<times> bson \<Rightarrow> bool" where
  "field_matches d kv =
     (case fmlookup d (fst kv) of
        None \<Rightarrow> snd kv = BNull
      | Some u \<Rightarrow> value_matches u (snd kv))"

definition matches :: "query_filter \<Rightarrow> job_record \<Rightarrow> bool" where
  "matches flt r = list_all (field_matches (to_dict r)) flt"

text \<open>
  \<^verbatim>\<open>collection.find_one(filter)\<close>: the first matching record in storage order as
  a dict, or \<^verbatim>\<open>None\<close>. It is a read: the collection it hands back is the one it
  was given.
\<close>

definition find_one :: "job_record list \<Rightarrow> query_filter \<Rightarrow> document option \<times> job_record list" where
  "find_one coll flt = (map_option to_dict (find (matches flt) coll), coll)"

subsection \<open>The world the script runs in\<close>

datatype py_exception =
    KeyError string
  | TypeError
  | InvalidURI
  | ServerSelectionTimeoutError
  | OperationFailure
  | FileNotFoundError
  | ValueError

text \<open>
  What stands behind a connection string: the client constructor refuses it, or
  the client is built and every command on it fails, or a store answers.
\<close>

datatype endpoint =
    Rejected py_exception
  | Unavailable py_exception
  | Serving store

text \<open>
  What \<^verbatim>\<open>subprocess.run(argv)\<close> does: it starts the child, waits for it and
  returns its exit status; or it raises (no such executable); or the child never
  ends and the call never returns.
\<close>

datatype run_outcome =
    Completed int
  | Raised py_exception
  | NeverReturns

record world =
  environ :: "string \<rightharpoonup> string"
  deployment :: "string \<Rightarrow> endpoint"
  subprocess_run :: "string list \<Rightarrow> run_outcome"

subsection \<open>What a run of the script does\<close>

datatype event =
    MongoClient string
  | FindOne string string query_filter
  | Print string
  | SubprocessRun "string list"

datatype outcome =
    Exited int
  | Uncaught py_exception
  | WaitsForever

record run =
  trace :: "event list"
  ending :: outcome
  deployment_after :: "string \<Rightarrow> endpoint"

text \<open>The exit code of the process: an uncaught exception makes the interpreter exit with 1.\<close>

fun exit_code :: "outcome \<Rightarrow> int option" where
  "exit_code (Exited n) = Some n"
| "exit_code (Uncaught e) = Some 1"
| "exit_code WaitsForever = None"

fun printed :: "event list \<Rightarrow> string list" where
  "printed [] = []"
| "printed (Print s # es) = s # printed es"
| "printed (e # es) = printed es"

fun spawned :: "event list \<Rightarrow> string list list" where
  "spawned [] = []"
| "spawned (SubprocessRun argv # es) = argv # spawned es"
| "spawned (e # es) = spawned es"

fun connections :: "event list \<Rightarrow> string list" where
  "connections [] = []"
| "connections (MongoClient uri # es) = uri # connections es"
| "connections (e # es) = connections es"

fun store_commands :: "event list \<Rightarrow> event list" where
  "store_commands [] = []"
| "store_commands (FindOne d c f # es) = FindOne d c f # store_commands es"
| "store_commands (e # es) = store_commands es"

subsection \<open>The script\<close>

text \<open>Line 7.\<close>

definition mongo_uri :: "(string \<rightharpoonup> string) \<Rightarrow> string" where
  "mongo_uri env =
     (case env ''MONGO_URI'' of None \<Rightarrow> ''mongodb://localhost:27017'' | Some v \<Rightarrow> v)"

text \<open>The literal of line 13.\<close>

definition pending_filter :: query_filter where
  "pending_filter = [(''jobStatus'', BStr ''pending'')]"

text \<open>\<^verbatim>\<open>not job\<close>: \<^verbatim>\<open>None\<close> and the empty dict are false, every other dict is true.\<close>

fun truthy :: "document option \<Rightarrow> bool" where
  "truthy None = False"
| "truthy (Some d) = (d \<noteq> fmempty)"

text \<open>\<^verbatim>\<open>job[key]\<close>.\<close>

fun getitem :: "document option \<Rightarrow> string \<Rightarrow> py_exception + bson" where
  "getitem None k = Inl TypeError"
| "getitem (Some d) k = (case fmlookup d k of None \<Rightarrow> Inl (KeyError k) | Some v \<Rightarrow> Inr v)"

text \<open>Line 23 and the end of the script: the returned status is dropped.\<close>

fun after_child :: "run_outcome \<Rightarrow> outcome" where
  "after_child (Completed rc) = Exited 0"
| "after_child (Raised e) = Uncaught e"
| "after_child NeverReturns = WaitsForever"

text \<open>Lines 15 to 23, given the value of \<^verbatim>\<open>job\<close>.\<close>

definition after_query :: "(string list \<Rightarrow> run_outcome) \<Rightarrow> document option \<Rightarrow> event list \<times> outcome" where
  "after_query sub job =
     (if \<not> truthy job then ([Print ''No pending job found.''], Exited 0)
      else case getitem job ''_id'' of
          Inl e \<Rightarrow> ([], Uncaught e)
        | Inr v \<Rightarrow>
            (let job_id = py_str v;
                 argv = [''python'', ''downloader.py'', job_id]
             in ([Print (''Running job: '' @ job_id), SubprocessRun argv],
                 after_child (sub argv))))"

text \<open>The whole script.\<close>

definition run_with_job_id :: "world \<Rightarrow> run" where
  "run_with_job_id w =
     (let uri = mongo_uri (environ w) in
      case deployment w uri of
          Rejected e \<Rightarrow>
            \<lparr>trace = [MongoClient uri], ending = Uncaught e, deployment_after = deployment w\<rparr>
        | Unavailable e \<Rightarrow>
            \<lparr>trace = [MongoClient uri, FindOne ''filesure'' ''jobs'' pending_filter],
             ending = Uncaught e, deployment_after = deployment w\<rparr>
        | Serving client \<Rightarrow>
            (let db = client ''filesure'';
                 jobs = db ''jobs'';
                 (job, jobs') = find_one jobs pending_filter;
                 client' = client(''filesure'' := db(''jobs'' := jobs'));
                 (events, fin) = after_query (subprocess_run w) job
             in \<lparr>trace = [MongoClient uri, FindOne ''filesure'' ''jobs'' pending_filter] @ events,
                 ending = fin,
                 deployment_after = (deployment w)(uri := Serving client')\<rparr>))"

text \<open>The value of \<^verbatim>\<open>job\<close> after line 13, or the exception raised up to there.\<close>

definition job :: "world \<Rightarrow> py_exception + document option" where
  "job w =
     (case deployment w (mongo_uri (environ w)) of
        Rejected e \<Rightarrow> Inl e
      | Unavailable e \<Rightarrow> Inl e
      | Serving s \<Rightarrow> Inr (fst (find_one (s ''filesure'' ''jobs'') pending_filter)))"

subsection \<open>Example records and worlds\<close>

text \<open>
  Concrete inputs on which the statements below are run: four records, a store
  holding given records in \<^verbatim>\<open>filesure.jobs\<close>, and a world with one reachable
  connection string.
\<close>

definition job_1 :: job_record where
  "job_1 = \<lparr>doc_id = ObjectId 0x507f1f77bcf86cd799439011,
            other_fields = fmupd ''jobStatus'' (BStr ''pending'') fmempty\<rparr>"

definition job_2 :: job_record where
  "job_2 = \<lparr>doc_id = BInt 42,
            other_fields = fmupd ''company'' (BStr ''acme'') (fmupd ''jobStatus'' (BStr ''pending'') fmempty)\<rparr>"

definition job_done :: job_record where
  "job_done = \<lparr>doc_id = BStr ''a1'',
               other_fields = fmupd ''jobStatus'' (BStr ''completed'') fmempty\<rparr>"

definition job_arr :: job_record where
  "job_arr = \<lparr>doc_id = BInt 1,
              other_fields = fmupd ''jobStatus'' (BArr [BStr ''pending'', BStr ''x'']) fmempty\<rparr>"

definition jobs_store :: "job_record list \<Rightarrow> store" where
  "jobs_store rs = (\<lambda>d c. if d = ''filesure'' \<and> c = ''jobs'' then rs else [])"

definition example_world :: "(string \<rightharpoonup> string) \<Rightarrow> string \<Rightarrow> endpoint \<Rightarrow> run_outcome \<Rightarrow> world" where
  "example_world env uri ep out =
     \<lparr>environ = env,
      deployment = (\<lambda>u. if u = uri then ep else Unavailable ServerSelectionTimeoutError),
      subprocess_run = (\<lambda>argv. out)\<rparr>"

section \<open>Facts about the model\<close>

lemma value_matches_pending:
  "value_matches u (BStr ''pending'') =
     (u = BStr ''pending'' \<or> (case u of BArr xs \<Rightarrow> BStr ''pending'' \<in> set xs | _ \<Rightarrow> False))"
  by (cases u) auto

lemma matches_pending_filter: "matches pending_filter r = selectable r"
proof (cases "fmlookup (to_dict r) ''jobStatus''")
  case None
  then show ?thesis
    by (simp add: matches_def pending_filter_def field_matches_def selectable_def pending_def
        array_pending_def jobStatus_def)
next
  case (Some u)
  then show ?thesis
    by (cases u)
      (auto simp: matches_def pending_filter_def field_matches_def selectable_def pending_def
        array_pending_def jobStatus_def)
qed

lemma selectable_without_arrays:
  assumes "\<forall>r \<in> set coll. \<not> array_pending r"
  shows "filter selectable coll = filter pending coll"
  using assms by (intro filter_cong) (simp_all add: selectable_def)

lemma truthy_to_dict: "truthy (Some (to_dict r))"
proof -
  have "fmlookup (to_dict r) ''_id'' \<noteq> fmlookup fmempty ''_id''"
    by (simp add: to_dict_def)
  then have "to_dict r \<noteq> fmempty" by metis
  then show ?thesis by simp
qed

lemma getitem_to_dict: "getitem (Some (to_dict r)) ''_id'' = Inr (doc_id r)"
  by (simp add: to_dict_def)

lemma find_pending_none:
  "fst (find_one coll pending_filter) = None \<longleftrightarrow> (\<forall>r \<in> set coll. \<not> selectable r)"
  by (auto simp: find_one_def find_None_iff matches_pending_filter)

lemma find_is_hd_filter:
  "find P xs = (case filter P xs of [] \<Rightarrow> None | x # _ \<Rightarrow> Some x)"
  by (induction xs) auto

lemma find_pending_some:
  "filter selectable coll = r # rs \<Longrightarrow> fst (find_one coll pending_filter) = Some (to_dict r)"
  by (simp add: find_one_def find_is_hd_filter matches_pending_filter[abs_def])

lemma after_query_found:
  "after_query sub (Some (to_dict r)) =
     ([Print (''Running job: '' @ py_str (doc_id r)),
       SubprocessRun [''python'', ''downloader.py'', py_str (doc_id r)]],
      after_child (sub [''python'', ''downloader.py'', py_str (doc_id r)]))"
  unfolding after_query_def using truthy_to_dict[of r]
  by (simp only: getitem_to_dict Let_def sum.case if_False not_True_eq_False simp_thms)

lemma after_query_none:
  "after_query sub None = ([Print ''No pending job found.''], Exited 0)"
  by (simp add: after_query_def)

lemma run_serving:
  assumes "deployment w (mongo_uri (environ w)) = Serving s"
  shows "run_with_job_id w =
    \<lparr>trace = [MongoClient (mongo_uri (environ w)), FindOne ''filesure'' ''jobs'' pending_filter]
        @ fst (after_query (subprocess_run w) (fst (find_one (s ''filesure'' ''jobs'') pending_filter))),
     ending = snd (after_query (subprocess_run w) (fst (find_one (s ''filesure'' ''jobs'') pending_filter))),
     deployment_after = deployment w\<rparr>"
proof -
  have "(deployment w)(mongo_uri (environ w) := Serving s) = deployment w"
    using assms by (metis fun_upd_triv)
  then show ?thesis
    using assms by (simp add: run_with_job_id_def Let_def find_one_def split: prod.split)
qed

lemma run_found:
  assumes "deployment w (mongo_uri (environ w)) = Serving s"
    and "filter selectable (s ''filesure'' ''jobs'') = r # rs"
  shows "run_with_job_id w =
    \<lparr>trace = [MongoClient (mongo_uri (environ w)), FindOne ''filesure'' ''jobs'' pending_filter,
              Print (''Running job: '' @ py_str (doc_id r)),
              SubprocessRun [''python'', ''downloader.py'', py_str (doc_id r)]],
     ending = after_child (subprocess_run w [''python'', ''downloader.py'', py_str (doc_id r)]),
     deployment_after = deployment w\<rparr>"
  by (simp add: run_serving[OF assms(1)] find_pending_some[OF assms(2)] after_query_found)

lemma run_not_found:
  assumes "deployment w (mongo_uri (environ w)) = Serving s"
    and "\<forall>r \<in> set (s ''filesure'' ''jobs''). \<not> selectable r"
  shows "run_with_job_id w =
    \<lparr>trace = [MongoClient (mongo_uri (environ w)), FindOne ''filesure'' ''jobs'' pending_filter,
              Print ''No pending job found.''],
     ending = Exited 0,
     deployment_after = deployment w\<rparr>"
proof -
  have "fst (find_one (s ''filesure'' ''jobs'') pending_filter) = None"
    using assms(2) by (simp add: find_pending_none)
  then show ?thesis
    by (simp add: run_serving[OF assms(1)] after_query_none)
qed

lemma str_oid_example:
  "py_str (ObjectId 0x507f1f77bcf86cd799439011) = ''507f1f77bcf86cd799439011''"
  by (simp add: hex_of_oid_def hex_digit_def upt_rec drop_bit_eq_div)

lemma run_rejected:
  assumes "deployment w (mongo_uri (environ w)) = Rejected e"
  shows "run_with_job_id w =
    \<lparr>trace = [MongoClient (mongo_uri (environ w))], ending = Uncaught e,
     deployment_after = deployment w\<rparr>"
  using assms by (simp add: run_with_job_id_def Let_def)

lemma run_unavailable:
  assumes "deployment w (mongo_uri (environ w)) = Unavailable e"
  shows "run_with_job_id w =
    \<lparr>trace = [MongoClient (mongo_uri (environ w)), FindOne ''filesure'' ''jobs'' pending_filter],
     ending = Uncaught e, deployment_after = deployment w\<rparr>"
  using assms by (simp add: run_with_job_id_def Let_def)

lemma run_cases [case_names rejected unavailable not_found found]:
  obtains
    e where "deployment w (mongo_uri (environ w)) = Rejected e"
  | e where "deployment w (mongo_uri (environ w)) = Unavailable e"
  | s where "deployment w (mongo_uri (environ w)) = Serving s"
      and "\<forall>r \<in> set (s ''filesure'' ''jobs''). \<not> selectable r"
  | s r rs where "deployment w (mongo_uri (environ w)) = Serving s"
      and "filter selectable (s ''filesure'' ''jobs'') = r # rs"
proof (cases "deployment w (mongo_uri (environ w))")
  case (Serving s)
  show ?thesis
  proof (cases "filter selectable (s ''filesure'' ''jobs'')")
    case Nil
    then have "\<forall>r \<in> set (s ''filesure'' ''jobs''). \<not> selectable r"
      by (simp add: filter_empty_conv)
    with Serving show ?thesis using that(3) by blast
  next
    case (Cons r rs)
    with Serving show ?thesis using that(4) by blast
  qed
qed (use that in blast)+

lemma filter_head_member: "filter P xs = r # rs \<Longrightarrow> r \<in> set xs \<and> P r"
proof -
  assume "filter P xs = r # rs"
  then have "r \<in> set (filter P xs)" by simp
  then show ?thesis by simp
qed

lemmas eval_defs =
  run_with_job_id_def mongo_uri_def find_one_def matches_def field_matches_def to_dict_def
  pending_filter_def after_query_def hex_of_oid_def hex_digit_def dec_digit_def str_int_def
  example_world_def jobs_store_def job_1_def job_2_def job_done_def job_arr_def pending_def
  jobStatus_def job_def Let_def upt_rec

lemma pending_examples:
  "pending job_1" "pending job_2" "\<not> pending job_done" "\<not> pending job_arr"
  by (simp_all add: pending_def jobStatus_def to_dict_def job_1_def job_2_def job_done_def
      job_arr_def)

lemma selectable_examples:
  "selectable job_1" "selectable job_2" "\<not> selectable job_done" "selectable job_arr"
  by (simp_all add: selectable_def array_pending_def pending_def jobStatus_def to_dict_def
      job_1_def job_2_def job_done_def job_arr_def)

lemma after_query_events_independent:
  "fst (after_query sub1 j) = fst (after_query sub2 j)"
  by (simp add: after_query_def Let_def split: sum.split)

lemma after_query_ending_independent:
  "spawned (fst (after_query sub1 j)) = [] \<Longrightarrow> snd (after_query sub1 j) = snd (after_query sub2 j)"
  unfolding after_query_def
  by (cases "truthy j"; cases "getitem j ''_id''"; simp add: Let_def)

lemma run_by_job:
  "printed (trace (run_with_job_id w)) =
     (case job w of Inl e \<Rightarrow> [] | Inr j \<Rightarrow> printed (fst (after_query (subprocess_run w) j)))
   \<and> spawned (trace (run_with_job_id w)) =
     (case job w of Inl e \<Rightarrow> [] | Inr j \<Rightarrow> spawned (fst (after_query (subprocess_run w) j)))
   \<and> ending (run_with_job_id w) =
     (case job w of Inl e \<Rightarrow> Uncaught e | Inr j \<Rightarrow> snd (after_query (subprocess_run w) j))
   \<and> connections (trace (run_with_job_id w)) = [mongo_uri (environ w)]"
proof (cases w rule: run_cases)
  case (rejected e)
  then show ?thesis by (simp add: run_rejected job_def)
next
  case (unavailable e)
  then show ?thesis by (simp add: run_unavailable job_def)
next
  case (not_found s)
  then have "job w = Inr None"
    by (simp add: job_def find_pending_none)
  then show ?thesis
    by (simp add: run_not_found[OF not_found] after_query_none)
next
  case (found s r rs)
  then have "job w = Inr (Some (to_dict r))"
    by (simp add: job_def find_pending_some)
  then show ?thesis
    by (simp add: run_found[OF found] after_query_found)
qed

section \<open>The properties of the specification\<close>

text \<open>
  Claim C1, as the code has it. When exactly one record of the queried collection has a
  \<^verbatim>\<open>jobStatus\<close> that is \<^verbatim>\<open>"pending"\<close> or an array holding \<^verbatim>\<open>"pending"\<close>, and its
  identifier is \<^verbatim>\<open>507f1f77bcf86cd799439011\<close> (as a store identifier or as a string),
  the script prints the one line \<^verbatim>\<open>Running job: 507f1f77bcf86cd799439011\<close> and calls
  the downloader exactly once, with that text as the only argument after the script path.
\<close>

theorem single_selectable_job_is_dispatched:
  assumes "deployment w (mongo_uri (environ w)) = Serving s"
    and "filter selectable (s ''filesure'' ''jobs'') = [r]"
    and "doc_id r = ObjectId 0x507f1f77bcf86cd799439011 \<or> doc_id r = BStr ''507f1f77bcf86cd799439011''"
  shows "printed (trace (run_with_job_id w)) = [''Running job: 507f1f77bcf86cd799439011'']
       \<and> spawned (trace (run_with_job_id w)) = [[''python'', ''downloader.py'', ''507f1f77bcf86cd799439011'']]"
proof -
  have "py_str (doc_id r) = ''507f1f77bcf86cd799439011''"
    using assms(3) str_oid_example by auto
  then show ?thesis
    by (simp add: run_found[OF assms(1) assms(2)])
qed

theorem single_selectable_job_is_dispatched_witness:
  "trace (run_with_job_id (example_world Map.empty ''mongodb://localhost:27017''
       (Serving (jobs_store [job_done, job_1])) (Completed 0))) =
     [MongoClient ''mongodb://localhost:27017'',
      FindOne ''filesure'' ''jobs'' [(''jobStatus'', BStr ''pending'')],
      Print ''Running job: 507f1f77bcf86cd799439011'',
      SubprocessRun [''python'', ''downloader.py'', ''507f1f77bcf86cd799439011'']]
   \<and> printed (trace (run_with_job_id (example_world Map.empty ''mongodb://localhost:27017''
       (Serving (jobs_store [job_done, job_1])) (Completed 0)))) =
     [''Running job: 507f1f77bcf86cd799439011'']
   \<and> spawned (trace (run_with_job_id (example_world Map.empty ''mongodb://localhost:27017''
       (Serving (jobs_store [job_done, job_1])) (Completed 0)))) =
     [[''python'', ''downloader.py'', ''507f1f77bcf86cd799439011'']]"
proof -
  let ?w = "example_world Map.empty ''mongodb://localhost:27017''
       (Serving (jobs_store [job_done, job_1])) (Completed 0)"
  have h1: "deployment ?w (mongo_uri (environ ?w)) = Serving (jobs_store [job_done, job_1])"
    by (simp add: example_world_def mongo_uri_def)
  have h2: "filter selectable (jobs_store [job_done, job_1] ''filesure'' ''jobs'') = [job_1]"
    by (simp add: jobs_store_def selectable_examples)
  have h3: "doc_id job_1 = ObjectId 0x507f1f77bcf86cd799439011
      \<or> doc_id job_1 = BStr ''507f1f77bcf86cd799439011''"
    by (simp add: job_1_def)
  have "trace (run_with_job_id ?w) =
     [MongoClient ''mongodb://localhost:27017'',
      FindOne ''filesure'' ''jobs'' [(''jobStatus'', BStr ''pending'')],
      Print ''Running job: 507f1f77bcf86cd799439011'',
      SubprocessRun [''python'', ''downloader.py'', ''507f1f77bcf86cd799439011'']]"
    by (simp add: eval_defs)
  with single_selectable_job_is_dispatched[OF h1 h2 h3] show ?thesis by simp
qed

text \<open>
  Counting only the records whose \<^verbatim>\<open>jobStatus\<close> equals \<^verbatim>\<open>"pending"\<close> is not enough.
  In the store below exactly one record has that status, and its identifier is
  \<^verbatim>\<open>507f1f77bcf86cd799439011\<close>; a record stored before it has the status
  \<^verbatim>\<open>["pending", "x"]\<close>, the query returns that one, and the script runs job \<^verbatim>\<open>1\<close>.
\<close>

theorem single_pending_job_counterexample:
  "filter pending (jobs_store [job_arr, job_1] ''filesure'' ''jobs'') = [job_1]
   \<and> doc_id job_1 = ObjectId 0x507f1f77bcf86cd799439011
   \<and> printed (trace (run_with_job_id (example_world Map.empty ''mongodb://localhost:27017''
       (Serving (jobs_store [job_arr, job_1])) (Completed 0)))) = [''Running job: 1'']
   \<and> spawned (trace (run_with_job_id (example_world Map.empty ''mongodb://localhost:27017''
       (Serving (jobs_store [job_arr, job_1])) (Completed 0)))) =
     [[''python'', ''downloader.py'', ''1'']]"
proof -
  let ?w = "example_world Map.empty ''mongodb://localhost:27017''
       (Serving (jobs_store [job_arr, job_1])) (Completed 0)"
  have "filter pending (jobs_store [job_arr, job_1] ''filesure'' ''jobs'') = [job_1]"
    by (simp add: jobs_store_def pending_examples)
  moreover have "doc_id job_1 = ObjectId 0x507f1f77bcf86cd799439011"
    by (simp add: job_1_def)
  moreover have "trace (run_with_job_id ?w) =
     [MongoClient ''mongodb://localhost:27017'',
      FindOne ''filesure'' ''jobs'' [(''jobStatus'', BStr ''pending'')],
      Print ''Running job: 1'', SubprocessRun [''python'', ''downloader.py'', ''1'']]"
    by (simp add: eval_defs)
  ultimately show ?thesis by simp
qed

text \<open>
  Claim C2, as the code has it. When no record of the queried collection has a
  \<^verbatim>\<open>jobStatus\<close> that is \<^verbatim>\<open>"pending"\<close> or an array holding \<^verbatim>\<open>"pending"\<close>, the script
  prints \<^verbatim>\<open>No pending job found.\<close>, ends with exit code 0 and starts no child process.
\<close>

theorem no_selectable_job_exits_zero:
  assumes "deployment w (mongo_uri (environ w)) = Serving s"
    and "\<forall>r \<in> set (s ''filesure'' ''jobs'').
          jobStatus r \<noteq> Some (BStr ''pending'') \<and> \<not> array_pending r"
  shows "printed (trace (run_with_job_id w)) = [''No pending job found.'']
       \<and> ending (run_with_job_id w) = Exited 0
       \<and> exit_code (ending (run_with_job_id w)) = Some 0
       \<and> spawned (trace (run_with_job_id w)) = []"
proof -
  have "\<forall>r \<in> set (s ''filesure'' ''jobs''). \<not> selectable r"
    using assms(2) by (simp add: selectable_def pending_def)
  then show ?thesis
    by (simp add: run_not_found[OF assms(1)])
qed

theorem no_selectable_job_exits_zero_witness:
  "printed (trace (run_with_job_id (example_world Map.empty ''mongodb://localhost:27017''
       (Serving (jobs_store [job_done])) (Completed 0)))) = [''No pending job found.'']
   \<and> exit_code (ending (run_with_job_id (example_world Map.empty ''mongodb://localhost:27017''
       (Serving (jobs_store [job_done])) (Completed 0)))) = Some 0
   \<and> spawned (trace (run_with_job_id (example_world Map.empty ''mongodb://localhost:27017''
       (Serving (jobs_store [job_done])) (Completed 0)))) = []
   \<and> printed (trace (run_with_job_id (example_world Map.empty ''mongodb://localhost:27017''
       (Serving (jobs_store [])) (Completed 0)))) = [''No pending job found.'']"
proof -
  let ?w = "example_world Map.empty ''mongodb://localhost:27017''
       (Serving (jobs_store [job_done])) (Completed 0)"
  let ?v = "example_world Map.empty ''mongodb://localhost:27017''
       (Serving (jobs_store [])) (Completed 0)"
  have h1: "deployment ?w (mongo_uri (environ ?w)) = Serving (jobs_store [job_done])"
    by (simp add: example_world_def mongo_uri_def)
  have h2: "\<forall>r \<in> set (jobs_store [job_done] ''filesure'' ''jobs'').
      jobStatus r \<noteq> Some (BStr ''pending'') \<and> \<not> array_pending r"
    by (simp add: jobs_store_def array_pending_def jobStatus_def to_dict_def job_done_def)
  have k1: "deployment ?v (mongo_uri (environ ?v)) = Serving (jobs_store [])"
    by (simp add: example_world_def mongo_uri_def)
  have k2: "\<forall>r \<in> set (jobs_store [] ''filesure'' ''jobs'').
      jobStatus r \<noteq> Some (BStr ''pending'') \<and> \<not> array_pending r"
    by (simp add: jobs_store_def)
  from no_selectable_job_exits_zero[OF h1 h2] no_selectable_job_exits_zero[OF k1 k2]
  show ?thesis by simp
qed

text \<open>
  Excluding only the status \<^verbatim>\<open>"pending"\<close> itself is not enough. The one record of the
  store below has the status \<^verbatim>\<open>["pending", "x"]\<close>, which is not \<^verbatim>\<open>"pending"\<close>; the
  query returns it and the script runs job \<^verbatim>\<open>1\<close>.
\<close>

theorem no_pending_job_counterexample:
  "jobStatus job_arr \<noteq> Some (BStr ''pending'')
   \<and> printed (trace (run_with_job_id (example_world Map.empty ''mongodb://localhost:27017''
       (Serving (jobs_store [job_arr])) (Completed 0)))) = [''Running job: 1'']
   \<and> spawned (trace (run_with_job_id (example_world Map.empty ''mongodb://localhost:27017''
       (Serving (jobs_store [job_arr])) (Completed 0)))) =
     [[''python'', ''downloader.py'', ''1'']]"
proof -
  let ?w = "example_world Map.empty ''mongodb://localhost:27017''
       (Serving (jobs_store [job_arr])) (Completed 0)"
  have "jobStatus job_arr \<noteq> Some (BStr ''pending'')"
    by (simp add: jobStatus_def to_dict_def job_arr_def)
  moreover have "trace (run_with_job_id ?w) =
     [MongoClient ''mongodb://localhost:27017'',
      FindOne ''filesure'' ''jobs'' [(''jobStatus'', BStr ''pending'')],
      Print ''Running job: 1'', SubprocessRun [''python'', ''downloader.py'', ''1'']]"
    by (simp add: eval_defs)
  ultimately show ?thesis by simp
qed

text \<open>
  Claim C3. Once the script has called the downloader, its end is decided by that call
  alone: whatever exit status the child returns, the script exits with code 0; while
  the child has not ended the script has not ended either; and the script exits with
  code 0 only after the child has completed.
\<close>

theorem child_status_is_dropped:
  assumes "spawned (trace (run_with_job_id w)) = [argv]"
  shows "(\<forall>rc. subprocess_run w argv = Completed rc \<longrightarrow>
            exit_code (ending (run_with_job_id w)) = Some 0)
       \<and> (subprocess_run w argv = NeverReturns \<longrightarrow>
            exit_code (ending (run_with_job_id w)) = None)
       \<and> (exit_code (ending (run_with_job_id w)) = Some 0 \<longrightarrow>
            (\<exists>rc. subprocess_run w argv = Completed rc))"
proof (cases w rule: run_cases)
  case (rejected e)
  with assms show ?thesis by (simp add: run_rejected)
next
  case (unavailable e)
  with assms show ?thesis by (simp add: run_unavailable)
next
  case (not_found s)
  with assms show ?thesis by (simp add: run_not_found)
next
  case (found s r rs)
  from assms have "ending (run_with_job_id w) = after_child (subprocess_run w argv)"
    by (simp add: run_found[OF found])
  then show ?thesis
    by (cases "subprocess_run w argv") simp_all
qed

theorem child_status_is_dropped_witness:
  "spawned (trace (run_with_job_id (example_world Map.empty ''mongodb://localhost:27017''
       (Serving (jobs_store [job_1])) (Completed 1)))) =
     [[''python'', ''downloader.py'', ''507f1f77bcf86cd799439011'']]
   \<and> exit_code (ending (run_with_job_id (example_world Map.empty ''mongodb://localhost:27017''
       (Serving (jobs_store [job_1])) (Completed 1)))) = Some 0
   \<and> exit_code (ending (run_with_job_id (example_world Map.empty ''mongodb://localhost:27017''
       (Serving (jobs_store [job_1])) NeverReturns))) = None"
proof -
  let ?a = "[''python'', ''downloader.py'', ''507f1f77bcf86cd799439011'']"
  let ?w = "example_world Map.empty ''mongodb://localhost:27017''
       (Serving (jobs_store [job_1])) (Completed 1)"
  let ?v = "example_world Map.empty ''mongodb://localhost:27017''
       (Serving (jobs_store [job_1])) NeverReturns"
  have h: "spawned (trace (run_with_job_id ?w)) = [?a]"
    by (simp add: eval_defs)
  have k: "spawned (trace (run_with_job_id ?v)) = [?a]"
    by (simp add: eval_defs)
  have c: "subprocess_run ?w ?a = Completed 1" "subprocess_run ?v ?a = NeverReturns"
    by (simp_all add: example_world_def)
  from child_status_is_dropped[OF h] child_status_is_dropped[OF k] h c
  show ?thesis by simp
qed

text \<open>
  Claim C4. A run leaves every store as it found it, and the only command it ever sends
  to a store is the one \<^verbatim>\<open>find_one\<close> on \<^verbatim>\<open>filesure.jobs\<close> (at most once). The
  child process is outside the script: what it does to the store is not the script's doing.
\<close>

theorem store_is_only_read:
  "deployment_after (run_with_job_id w) = deployment w
   \<and> (store_commands (trace (run_with_job_id w)) = []
      \<or> store_commands (trace (run_with_job_id w)) =
          [FindOne ''filesure'' ''jobs'' [(''jobStatus'', BStr ''pending'')]])"
  by (cases w rule: run_cases)
    (simp_all add: run_rejected run_unavailable run_not_found run_found pending_filter_def)

theorem store_is_only_read_witness:
  "deployment_after (run_with_job_id (example_world Map.empty ''mongodb://localhost:27017''
       (Serving (jobs_store [job_1, job_2])) (Completed 0)))
     ''mongodb://localhost:27017'' = Serving (jobs_store [job_1, job_2])
   \<and> store_commands (trace (run_with_job_id (example_world Map.empty ''mongodb://localhost:27017''
       (Serving (jobs_store [job_1, job_2])) (Completed 0)))) =
     [FindOne ''filesure'' ''jobs'' [(''jobStatus'', BStr ''pending'')]]"
proof -
  let ?w = "example_world Map.empty ''mongodb://localhost:27017''
       (Serving (jobs_store [job_1, job_2])) (Completed 0)"
  have "store_commands (trace (run_with_job_id ?w)) =
     [FindOne ''filesure'' ''jobs'' [(''jobStatus'', BStr ''pending'')]]"
    by (simp add: eval_defs)
  moreover have "deployment ?w ''mongodb://localhost:27017'' = Serving (jobs_store [job_1, job_2])"
    by (simp add: example_world_def)
  ultimately show ?thesis
    using store_is_only_read[of ?w] by simp
qed


text \<open>
  Claim C5. With \<^verbatim>\<open>MONGO_URI\<close> unset the client is built for
  \<^verbatim>\<open>mongodb://localhost:27017\<close>; with \<^verbatim>\<open>MONGO_URI\<close> set, for its value. What stands
  behind any other connection string has no influence on the run.
\<close>

theorem endpoint_from_environment:
  "(environ w ''MONGO_URI'' = None \<longrightarrow>
      connections (trace (run_with_job_id w)) = [''mongodb://localhost:27017''])
   \<and> (environ w ''MONGO_URI'' = Some v \<longrightarrow>
      connections (trace (run_with_job_id w)) = [v])
   \<and> (environ w' = environ w \<and> subprocess_run w' = subprocess_run w
        \<and> deployment w' (hd (connections (trace (run_with_job_id w))))
            = deployment w (hd (connections (trace (run_with_job_id w))))
      \<longrightarrow> trace (run_with_job_id w') = trace (run_with_job_id w)
        \<and> ending (run_with_job_id w') = ending (run_with_job_id w))"
proof -
  have conn: "connections (trace (run_with_job_id w)) = [mongo_uri (environ w)]"
    by (cases w rule: run_cases)
      (simp_all add: run_rejected run_unavailable run_not_found run_found)
  have same: "trace (run_with_job_id w') = trace (run_with_job_id w)
        \<and> ending (run_with_job_id w') = ending (run_with_job_id w)"
    if "environ w' = environ w" "subprocess_run w' = subprocess_run w"
      "deployment w' (mongo_uri (environ w)) = deployment w (mongo_uri (environ w))"
    using that by (simp add: run_with_job_id_def Let_def split: endpoint.split prod.split)
  have unset: "connections (trace (run_with_job_id w)) = [''mongodb://localhost:27017'']"
    if "environ w ''MONGO_URI'' = None"
    using that by (simp add: conn mongo_uri_def)
  have set: "connections (trace (run_with_job_id w)) = [v]"
    if "environ w ''MONGO_URI'' = Some v"
    using that by (simp add: conn mongo_uri_def)
  have "hd (connections (trace (run_with_job_id w))) = mongo_uri (environ w)"
    by (simp only: conn list.sel)
  with same unset set show ?thesis
    by presburger
qed

theorem endpoint_from_environment_witness:
  "connections (trace (run_with_job_id (example_world Map.empty ''mongodb://localhost:27017''
       (Serving (jobs_store [job_1])) (Completed 0)))) = [''mongodb://localhost:27017'']
   \<and> connections (trace (run_with_job_id
       (example_world [''MONGO_URI'' \<mapsto> ''mongodb://db.internal:27017''] ''mongodb://db.internal:27017''
       (Serving (jobs_store [job_1])) (Completed 0)))) = [''mongodb://db.internal:27017'']
   \<and> trace (run_with_job_id (example_world Map.empty ''mongodb://elsewhere''
       (Serving (jobs_store [job_2])) (Completed 0))) =
     trace (run_with_job_id (example_world Map.empty ''mongodb://localhost:27017''
       (Unavailable ServerSelectionTimeoutError) (Completed 0)))"
proof -
  let ?w = "example_world Map.empty ''mongodb://localhost:27017''
       (Serving (jobs_store [job_1])) (Completed 0)"
  let ?v = "example_world [''MONGO_URI'' \<mapsto> ''mongodb://db.internal:27017'']
       ''mongodb://db.internal:27017'' (Serving (jobs_store [job_1])) (Completed 0)"
  let ?u = "example_world Map.empty ''mongodb://localhost:27017''
       (Unavailable ServerSelectionTimeoutError) (Completed 0)"
  let ?u' = "example_world Map.empty ''mongodb://elsewhere''
       (Serving (jobs_store [job_2])) (Completed 0)"
  have e1: "environ ?w ''MONGO_URI'' = None"
    by (simp add: example_world_def)
  have e2: "environ ?v ''MONGO_URI'' = Some ''mongodb://db.internal:27017''"
    by (simp add: example_world_def)
  have e3: "environ ?u ''MONGO_URI'' = None"
    by (simp add: example_world_def)
  note c1 = endpoint_from_environment[of ?w undefined ?w, THEN conjunct1, THEN mp, OF e1]
  note c2 = endpoint_from_environment[of ?v "''mongodb://db.internal:27017''" ?v,
      THEN conjunct2, THEN conjunct1, THEN mp, OF e2]
  note c3 = endpoint_from_environment[of ?u undefined ?u, THEN conjunct1, THEN mp, OF e3]
  have e4: "environ ?u' = environ ?u \<and> subprocess_run ?u' = subprocess_run ?u
      \<and> deployment ?u' (hd (connections (trace (run_with_job_id ?u))))
          = deployment ?u (hd (connections (trace (run_with_job_id ?u))))"
    unfolding c3 list.sel by (simp add: example_world_def)
  note c4 = endpoint_from_environment[of ?u undefined ?u',
      THEN conjunct2, THEN conjunct2, THEN mp, OF e4, THEN conjunct1]
  from c1 c2 c4 show ?thesis
    by (intro conjI)
qed

text \<open>
  Claim C6, as the code has it. When the queried collection holds two or more records
  whose \<^verbatim>\<open>jobStatus\<close> equals \<^verbatim>\<open>"pending"\<close>, the run picks one record, the first in the
  store's order whose \<^verbatim>\<open>jobStatus\<close> is \<^verbatim>\<open>"pending"\<close> or an array holding \<^verbatim>\<open>"pending"\<close>,
  prints its identifier and calls the downloader exactly once, for that record. When
  no record has such an array, the record picked is the first of those with status
  \<^verbatim>\<open>"pending"\<close>.
\<close>

theorem first_selectable_is_dispatched:
  assumes "deployment w (mongo_uri (environ w)) = Serving s"
    and "2 \<le> length (filter pending (s ''filesure'' ''jobs''))"
  shows "hd (filter selectable (s ''filesure'' ''jobs'')) \<in> set (s ''filesure'' ''jobs'')
       \<and> selectable (hd (filter selectable (s ''filesure'' ''jobs'')))
       \<and> spawned (trace (run_with_job_id w)) =
           [[''python'', ''downloader.py'',
             py_str (doc_id (hd (filter selectable (s ''filesure'' ''jobs''))))]]
       \<and> printed (trace (run_with_job_id w)) =
           [''Running job: '' @ py_str (doc_id (hd (filter selectable (s ''filesure'' ''jobs''))))]
       \<and> ((\<forall>r \<in> set (s ''filesure'' ''jobs''). \<not> array_pending r) \<longrightarrow>
            hd (filter selectable (s ''filesure'' ''jobs'')) = hd (filter pending (s ''filesure'' ''jobs''))
            \<and> pending (hd (filter selectable (s ''filesure'' ''jobs''))))"
proof -
  obtain p ps where ps: "filter pending (s ''filesure'' ''jobs'') = p # ps"
    using assms(2) by (cases "filter pending (s ''filesure'' ''jobs'')") auto
  then have "p \<in> set (s ''filesure'' ''jobs'') \<and> pending p"
    by (rule filter_head_member)
  then have "p \<in> set (filter selectable (s ''filesure'' ''jobs''))"
    by (simp add: selectable_def)
  then obtain r rs where rs: "filter selectable (s ''filesure'' ''jobs'') = r # rs"
    by (cases "filter selectable (s ''filesure'' ''jobs'')") auto
  have mem: "r \<in> set (s ''filesure'' ''jobs'') \<and> selectable r"
    using rs by (rule filter_head_member)
  have plain: "r = p \<and> pending r" if "\<forall>r \<in> set (s ''filesure'' ''jobs''). \<not> array_pending r"
  proof -
    have "filter selectable (s ''filesure'' ''jobs'') = filter pending (s ''filesure'' ''jobs'')"
      using that by (rule selectable_without_arrays)
    with rs ps have "r = p" by simp
    with \<open>p \<in> set (s ''filesure'' ''jobs'') \<and> pending p\<close> show ?thesis by simp
  qed
  have last: "(\<forall>r \<in> set (s ''filesure'' ''jobs''). \<not> array_pending r) \<longrightarrow>
      hd (filter selectable (s ''filesure'' ''jobs'')) = hd (filter pending (s ''filesure'' ''jobs''))
      \<and> pending (hd (filter selectable (s ''filesure'' ''jobs'')))"
    using plain by (simp only: rs ps list.sel) blast
  have first: "hd (filter selectable (s ''filesure'' ''jobs'')) = r"
    by (simp only: rs list.sel)
  have "spawned (trace (run_with_job_id w)) = [[''python'', ''downloader.py'', py_str (doc_id r)]]
      \<and> printed (trace (run_with_job_id w)) = [''Running job: '' @ py_str (doc_id r)]"
    by (simp add: run_found[OF assms(1) rs])
  with mem last show ?thesis
    unfolding first by (intro conjI) (elim conjE, assumption)+
qed

theorem first_selectable_is_dispatched_witness:
  "spawned (trace (run_with_job_id (example_world Map.empty ''mongodb://localhost:27017''
       (Serving (jobs_store [job_done, job_2, job_1])) (Completed 0)))) =
     [[''python'', ''downloader.py'', ''42'']]
   \<and> printed (trace (run_with_job_id (example_world Map.empty ''mongodb://localhost:27017''
       (Serving (jobs_store [job_done, job_2, job_1])) (Completed 0)))) =
     [''Running job: 42'']
   \<and> pending (hd (filter selectable (jobs_store [job_done, job_2, job_1] ''filesure'' ''jobs'')))"
proof -
  let ?s = "jobs_store [job_done, job_2, job_1]"
  let ?w = "example_world Map.empty ''mongodb://localhost:27017'' (Serving ?s) (Completed 0)"
  have h1: "deployment ?w (mongo_uri (environ ?w)) = Serving ?s"
    by (simp add: example_world_def mongo_uri_def)
  have f: "filter pending (?s ''filesure'' ''jobs'') = [job_2, job_1]"
    by (simp add: jobs_store_def pending_examples)
  have g: "filter selectable (?s ''filesure'' ''jobs'') = [job_2, job_1]"
    by (simp add: jobs_store_def selectable_examples)
  have h2: "2 \<le> length (filter pending (?s ''filesure'' ''jobs''))"
    by (simp add: f)
  have na: "\<forall>r \<in> set (?s ''filesure'' ''jobs''). \<not> array_pending r"
    by (simp add: jobs_store_def array_pending_def jobStatus_def to_dict_def
        job_1_def job_2_def job_done_def)
  have id: "py_str (doc_id job_2) = ''42''"
    by (simp add: job_2_def str_int_def dec_digit_def)
  note t = first_selectable_is_dispatched[OF h1 h2]
  from t na have "pending (hd (filter selectable (?s ''filesure'' ''jobs'')))"
    by blast
  with t id show ?thesis
    by (simp add: g)
qed

text \<open>
  The record picked need not be one of those whose \<^verbatim>\<open>jobStatus\<close> equals \<^verbatim>\<open>"pending"\<close>.
  The store below holds two of them, with identifiers \<^verbatim>\<open>42\<close> and
  \<^verbatim>\<open>507f1f77bcf86cd799439011\<close>; a record stored before them has the status
  \<^verbatim>\<open>["pending", "x"]\<close>, and the script runs that one, job \<^verbatim>\<open>1\<close>.
\<close>

theorem one_of_many_pending_counterexample:
  "filter pending (jobs_store [job_arr, job_2, job_1] ''filesure'' ''jobs'') = [job_2, job_1]
   \<and> py_str (doc_id job_2) = ''42''
   \<and> py_str (doc_id job_1) = ''507f1f77bcf86cd799439011''
   \<and> spawned (trace (run_with_job_id (example_world Map.empty ''mongodb://localhost:27017''
       (Serving (jobs_store [job_arr, job_2, job_1])) (Completed 0)))) =
     [[''python'', ''downloader.py'', ''1'']]"
proof -
  let ?w = "example_world Map.empty ''mongodb://localhost:27017''
       (Serving (jobs_store [job_arr, job_2, job_1])) (Completed 0)"
  have "filter pending (jobs_store [job_arr, job_2, job_1] ''filesure'' ''jobs'') = [job_2, job_1]"
    by (simp add: jobs_store_def pending_examples)
  moreover have "py_str (doc_id job_2) = ''42''"
    by (simp add: job_2_def str_int_def dec_digit_def)
  moreover have "py_str (doc_id job_1) = ''507f1f77bcf86cd799439011''"
    by (simp only: job_1_def job_record.select_convs str_oid_example)
  moreover have "spawned (trace (run_with_job_id ?w)) = [[''python'', ''downloader.py'', ''1'']]"
    by (simp add: eval_defs)
  ultimately show ?thesis by simp
qed

text \<open>
  Claim C7. When the query raises (the store is unreachable or refuses the command), or
  the client constructor raises, the exception is not caught: the run ends with it
  (exit code 1), has printed nothing, has started no child, and has built one client and
  sent at most one query (no retry).
\<close>

theorem store_failure_is_uncaught:
  assumes "deployment w (mongo_uri (environ w)) = Unavailable e
         \<or> deployment w (mongo_uri (environ w)) = Rejected e"
  shows "ending (run_with_job_id w) = Uncaught e
       \<and> exit_code (ending (run_with_job_id w)) = Some 1
       \<and> printed (trace (run_with_job_id w)) = []
       \<and> spawned (trace (run_with_job_id w)) = []
       \<and> length (connections (trace (run_with_job_id w))) = 1
       \<and> length (store_commands (trace (run_with_job_id w))) \<le> 1"
  using assms by (auto simp: run_rejected run_unavailable)

theorem store_failure_is_uncaught_witness:
  "trace (run_with_job_id (example_world Map.empty ''mongodb://localhost:27017''
       (Unavailable ServerSelectionTimeoutError) (Completed 0))) =
     [MongoClient ''mongodb://localhost:27017'',
      FindOne ''filesure'' ''jobs'' [(''jobStatus'', BStr ''pending'')]]
   \<and> ending (run_with_job_id (example_world Map.empty ''mongodb://localhost:27017''
       (Unavailable ServerSelectionTimeoutError) (Completed 0))) =
     Uncaught ServerSelectionTimeoutError
   \<and> exit_code (ending (run_with_job_id (example_world Map.empty ''mongodb://localhost:27017''
       (Unavailable ServerSelectionTimeoutError) (Completed 0)))) = Some 1"
proof -
  let ?w = "example_world Map.empty ''mongodb://localhost:27017''
       (Unavailable ServerSelectionTimeoutError) (Completed 0)"
  have h: "deployment ?w (mongo_uri (environ ?w)) = Unavailable ServerSelectionTimeoutError
      \<or> deployment ?w (mongo_uri (environ ?w)) = Rejected ServerSelectionTimeoutError"
    by (simp add: example_world_def mongo_uri_def)
  have "trace (run_with_job_id ?w) =
     [MongoClient ''mongodb://localhost:27017'',
      FindOne ''filesure'' ''jobs'' [(''jobStatus'', BStr ''pending'')]]"
    by (simp add: eval_defs)
  with store_failure_is_uncaught[OF h] show ?thesis by simp
qed

text \<open>
  Claim C8. The branch of line 15 tests truthiness: the values of \<^verbatim>\<open>job\<close> that take it
  are \<^verbatim>\<open>None\<close> and the empty dict, and for each of them the script prints
  \<^verbatim>\<open>No pending job found.\<close> and exits with code 0. No field is read: for the empty
  dict, reading \<^verbatim>\<open>_id\<close> would have raised \<^verbatim>\<open>KeyError\<close>.
\<close>

theorem not_found_is_decided_by_truthiness:
  "(\<not> truthy j \<longleftrightarrow> j = None \<or> j = Some fmempty)
   \<and> (\<not> truthy j \<longrightarrow> after_query sub j = ([Print ''No pending job found.''], Exited 0))"
  by (cases j) (simp_all add: after_query_def)

theorem not_found_is_decided_by_truthiness_witness:
  "after_query (\<lambda>argv. Completed 0) (Some fmempty) = ([Print ''No pending job found.''], Exited 0)
   \<and> after_query (\<lambda>argv. Completed 0) None = ([Print ''No pending job found.''], Exited 0)
   \<and> getitem (Some fmempty) ''_id'' = Inl (KeyError ''_id'')"
proof -
  have "\<not> truthy (Some fmempty)" "\<not> truthy None"
    by simp_all
  with not_found_is_decided_by_truthiness[of "Some fmempty" "\<lambda>argv. Completed 0"]
    not_found_is_decided_by_truthiness[of None "\<lambda>argv. Completed 0"]
  show ?thesis by simp
qed

text \<open>
  Claim C9. In every world, every store command of a run is the query on database
  \<^verbatim>\<open>filesure\<close>, collection \<^verbatim>\<open>jobs\<close>, with the filter of line 13, and every child
  command is \<^verbatim>\<open>python downloader.py\<close> followed by one argument, the \<^verbatim>\<open>str\<close> of the
  \<^verbatim>\<open>_id\<close> of a record of that collection.
\<close>

theorem names_and_command_are_fixed:
  "(\<forall>c \<in> set (store_commands (trace (run_with_job_id w))).
      c = FindOne ''filesure'' ''jobs'' [(''jobStatus'', BStr ''pending'')])
   \<and> (\<forall>argv \<in> set (spawned (trace (run_with_job_id w))).
      \<exists>s r. deployment w (mongo_uri (environ w)) = Serving s
        \<and> r \<in> set (s ''filesure'' ''jobs'')
        \<and> argv = [''python'', ''downloader.py'', py_str (doc_id r)])"
proof (cases w rule: run_cases)
  case (found s r rs)
  have "r \<in> set (s ''filesure'' ''jobs'')"
    using found(2) filter_head_member by fastforce
  then show ?thesis
    using found(1) by (auto simp: run_found[OF found] pending_filter_def)
qed (simp_all add: run_rejected run_unavailable run_not_found pending_filter_def)

theorem names_and_command_are_fixed_witness:
  "store_commands (trace (run_with_job_id
       (example_world [''MONGO_URI'' \<mapsto> ''mongodb://db.internal:27017'', ''DB_NAME'' \<mapsto> ''other'']
          ''mongodb://db.internal:27017'' (Serving (jobs_store [job_2])) (Completed 0)))) =
     [FindOne ''filesure'' ''jobs'' [(''jobStatus'', BStr ''pending'')]]
   \<and> spawned (trace (run_with_job_id
       (example_world [''MONGO_URI'' \<mapsto> ''mongodb://db.internal:27017'', ''DB_NAME'' \<mapsto> ''other'']
          ''mongodb://db.internal:27017'' (Serving (jobs_store [job_2])) (Completed 0)))) =
     [[''python'', ''downloader.py'', ''42'']]
   \<and> (\<exists>r. r \<in> set (jobs_store [job_2] ''filesure'' ''jobs'')
        \<and> [''python'', ''downloader.py'', ''42''] = [''python'', ''downloader.py'', py_str (doc_id r)])"
proof -
  let ?w = "example_world [''MONGO_URI'' \<mapsto> ''mongodb://db.internal:27017'', ''DB_NAME'' \<mapsto> ''other'']
          ''mongodb://db.internal:27017'' (Serving (jobs_store [job_2])) (Completed 0)"
  have d: "deployment ?w (mongo_uri (environ ?w)) = Serving (jobs_store [job_2])"
    by (simp add: example_world_def mongo_uri_def)
  have c: "store_commands (trace (run_with_job_id ?w)) =
     [FindOne ''filesure'' ''jobs'' [(''jobStatus'', BStr ''pending'')]]"
    by (simp add: eval_defs)
  have a: "spawned (trace (run_with_job_id ?w)) = [[''python'', ''downloader.py'', ''42'']]"
    by (simp add: eval_defs)
  from names_and_command_are_fixed[of ?w] a d
  have "\<exists>r. r \<in> set (jobs_store [job_2] ''filesure'' ''jobs'')
        \<and> [''python'', ''downloader.py'', ''42''] = [''python'', ''downloader.py'', py_str (doc_id r)]"
    by simp
  with c a show ?thesis by simp
qed

text \<open>
  Claim C10. Two runs with the same value of \<^verbatim>\<open>MONGO_URI\<close> and the same outcome of the
  query (the same record, or none, or the same exception) print the same lines, build
  the client for the same connection string and call the child with the same arguments,
  whatever else differs between their worlds; when no child is called they also end
  the same way.
\<close>

theorem runs_agree_on_same_inputs:
  assumes "environ w1 ''MONGO_URI'' = environ w2 ''MONGO_URI''"
    and "job w1 = job w2"
  shows "printed (trace (run_with_job_id w1)) = printed (trace (run_with_job_id w2))
       \<and> spawned (trace (run_with_job_id w1)) = spawned (trace (run_with_job_id w2))
       \<and> connections (trace (run_with_job_id w1)) = connections (trace (run_with_job_id w2))
       \<and> (spawned (trace (run_with_job_id w1)) = [] \<longrightarrow>
            ending (run_with_job_id w1) = ending (run_with_job_id w2))"
proof -
  have uri: "mongo_uri (environ w1) = mongo_uri (environ w2)"
    using assms(1) by (simp add: mongo_uri_def)
  show ?thesis
  proof (cases "job w2")
    case (Inl e)
    with assms(2) uri show ?thesis by (simp add: run_by_job)
  next
    case (Inr j)
    with assms(2) uri show ?thesis
      using after_query_events_independent[of "subprocess_run w1" j "subprocess_run w2"]
        after_query_ending_independent[of "subprocess_run w1" j "subprocess_run w2"]
      by (simp add: run_by_job)
  qed
qed

theorem runs_agree_on_same_inputs_witness:
  "printed (trace (run_with_job_id
       (example_world [''MONGO_URI'' \<mapsto> ''mongodb://db.internal:27017''] ''mongodb://db.internal:27017''
          (Serving (jobs_store [job_2, job_1])) (Completed 0)))) =
   printed (trace (run_with_job_id
       (example_world [''MONGO_URI'' \<mapsto> ''mongodb://db.internal:27017'', ''HOME'' \<mapsto> ''/root'']
          ''mongodb://db.internal:27017'' (Serving (jobs_store [job_done, job_2])) (Completed 1))))
   \<and> spawned (trace (run_with_job_id
       (example_world [''MONGO_URI'' \<mapsto> ''mongodb://db.internal:27017''] ''mongodb://db.internal:27017''
          (Serving (jobs_store [job_2, job_1])) (Completed 0)))) =
   spawned (trace (run_with_job_id
       (example_world [''MONGO_URI'' \<mapsto> ''mongodb://db.internal:27017'', ''HOME'' \<mapsto> ''/root'']
          ''mongodb://db.internal:27017'' (Serving (jobs_store [job_done, job_2])) (Completed 1))))
   \<and> spawned (trace (run_with_job_id
       (example_world [''MONGO_URI'' \<mapsto> ''mongodb://db.internal:27017''] ''mongodb://db.internal:27017''
          (Serving (jobs_store [job_2, job_1])) (Completed 0)))) =
     [[''python'', ''downloader.py'', ''42'']]"
proof -
  let ?w1 = "example_world [''MONGO_URI'' \<mapsto> ''mongodb://db.internal:27017'']
      ''mongodb://db.internal:27017'' (Serving (jobs_store [job_2, job_1])) (Completed 0)"
  let ?w2 = "example_world [''MONGO_URI'' \<mapsto> ''mongodb://db.internal:27017'', ''HOME'' \<mapsto> ''/root'']
      ''mongodb://db.internal:27017'' (Serving (jobs_store [job_done, job_2])) (Completed 1)"
  have h1: "environ ?w1 ''MONGO_URI'' = environ ?w2 ''MONGO_URI''"
    by (simp add: example_world_def)
  have j1: "job ?w1 = Inr (Some (to_dict job_2))"
    by (simp add: job_def example_world_def mongo_uri_def jobs_store_def find_one_def
        matches_pending_filter selectable_examples)
  have j2: "job ?w2 = Inr (Some (to_dict job_2))"
    by (simp add: job_def example_world_def mongo_uri_def jobs_store_def find_one_def
        matches_pending_filter selectable_examples)
  have h2: "job ?w1 = job ?w2"
    by (simp only: j1 j2)
  have a: "spawned (trace (run_with_job_id ?w1)) = [[''python'', ''downloader.py'', ''42'']]"
    by (simp add: eval_defs)
  note agree = runs_agree_on_same_inputs[OF h1 h2]
  from agree[THEN conjunct1] agree[THEN conjunct2, THEN conjunct1] a show ?thesis
    by (intro conjI)
qed


end
